theory Spec2Isabelle
  imports Complex_Main "HOL-Library.Multiset"
begin

section \<open>MelaScalp triage engine (src/triage\_engine.py)\<close>

text \<open>
  A shallow embedding of the rule-based classifier \<^verbatim>\<open>MelaScalpTriageEngine\<close>.
  Python strings are modelled as \<^typ>\<open>string\<close>, one \<^typ>\<open>char\<close> per code point, which
  covers text whose code points are below 256. Python's unbounded integers are \<^typ>\<open>int\<close>.
  The private methods \<^verbatim>\<open>_check_folliculitis\<close>, \<^verbatim>\<open>_parse_input\<close>, ... keep their names
  without the leading underscore.
\<close>

subsection \<open>String helpers of the Python runtime\<close>

text \<open>\<^verbatim>\<open>str.lower()\<close> on code points below 256: A-Z and the Latin-1 capitals move up by 32.\<close>

definition py_lower_char :: "char \<Rightarrow> char" where
  "py_lower_char c =
     (let n = (of_char c :: nat) in
      if (65 \<le> n \<and> n \<le> 90) \<or> (192 \<le> n \<and> n \<le> 214) \<or> (216 \<le> n \<and> n \<le> 222)
      then char_of (n + 32) else c)"

definition py_lower :: "string \<Rightarrow> string" where
  "py_lower s = map py_lower_char s"

text \<open>\<^verbatim>\<open>str.isspace()\<close> on code points below 256, the characters \<^verbatim>\<open>str.strip()\<close> removes.\<close>

definition py_isspace :: "char \<Rightarrow> bool" where
  "py_isspace c =
     (let n = (of_char c :: nat) in
      (9 \<le> n \<and> n \<le> 13) \<or> (28 \<le> n \<and> n \<le> 32) \<or> n = 133 \<or> n = 160)"

definition py_strip :: "string \<Rightarrow> string" where
  "py_strip s = rev (dropWhile py_isspace (rev (dropWhile py_isspace s)))"

text \<open>\<^verbatim>\<open>sub in s\<close> on strings: \<open>sub\<close> occurs as a contiguous piece of \<open>s\<close>.\<close>

fun py_contains :: "string \<Rightarrow> string \<Rightarrow> bool" where
  "py_contains sub [] = (sub = [])"
| "py_contains sub (c # cs) = (take (length sub) (c # cs) = sub \<or> py_contains sub cs)"

text \<open>\<^verbatim>\<open>any(s in xs for s in tokens)\<close>.\<close>

definition any_in :: "string list \<Rightarrow> string list \<Rightarrow> bool" where
  "any_in tokens xs = list_ex (\<lambda>s. s \<in> set xs) tokens"

subsection \<open>Data model\<close>

datatype ConditionLabel =
    SEBORRHEIC_DERMATITIS | FOLLICULITIS | PSORIASIS | SCALP_ACNE | TENSION_DAMAGE
  | PRODUCT_BUILDUP | DRY_SCALP | CONTACT_DERMATITIS | UNCLEAR

fun label_value :: "ConditionLabel \<Rightarrow> string" where
  "label_value SEBORRHEIC_DERMATITIS = ''seborrheic_dermatitis''"
| "label_value FOLLICULITIS = ''folliculitis''"
| "label_value PSORIASIS = ''psoriasis''"
| "label_value SCALP_ACNE = ''scalp_acne''"
| "label_value TENSION_DAMAGE = ''tension_damage''"
| "label_value PRODUCT_BUILDUP = ''product_buildup''"
| "label_value DRY_SCALP = ''dry_scalp''"
| "label_value CONTACT_DERMATITIS = ''contact_dermatitis''"
| "label_value UNCLEAR = ''unclear''"

datatype ConfidenceLevel = LOW | MODERATE | HIGH

fun confidence_value :: "ConfidenceLevel \<Rightarrow> string" where
  "confidence_value LOW = ''low''"
| "confidence_value MODERATE = ''moderate''"
| "confidence_value HIGH = ''high''"

text \<open>The dictionary handed to \<^verbatim>\<open>classify\<close>: every key may be missing (\<open>None\<close>).\<close>

record InputDict =
  d_symptoms :: "string list option"
  d_style_type :: "string option"
  d_wash_frequency :: "string option"
  d_product_use :: "string list option"
  d_known_issues :: "string list option"
  d_image_uploaded :: "bool option"

record TriageInput =
  symptoms :: "string list"
  style_type :: string
  wash_frequency :: string
  product_use :: "string list"
  known_issues :: "string list"
  image_uploaded :: bool

record TriageResult =
  condition_label :: string
  care_plan_id :: string
  referral_required :: bool
  confidence_level :: string
  reasoning :: string
  severity_score :: int

datatype py_error = ZeroDivisionError

subsection \<open>Class constants\<close>

fun CARE_PLANS :: "ConditionLabel \<Rightarrow> string" where
  "CARE_PLANS SEBORRHEIC_DERMATITIS = ''CP-001''"
| "CARE_PLANS FOLLICULITIS = ''CP-002''"
| "CARE_PLANS PSORIASIS = ''CP-003''"
| "CARE_PLANS SCALP_ACNE = ''CP-004''"
| "CARE_PLANS TENSION_DAMAGE = ''CP-005''"
| "CARE_PLANS PRODUCT_BUILDUP = ''CP-006''"
| "CARE_PLANS DRY_SCALP = ''CP-006''"
| "CARE_PLANS CONTACT_DERMATITIS = ''CP-007''"
| "CARE_PLANS UNCLEAR = ''CP-999''"

definition PROTECTIVE_STYLES :: "string set" where
  "PROTECTIVE_STYLES =
     {''braids'', ''cornrows'', ''weave'', ''extensions'', ''locs'',
      ''twists'', ''faux_locs'', ''crochet'', ''tight_ponytail''}"

definition LOW_WASH_FREQUENCIES :: "string set" where
  "LOW_WASH_FREQUENCIES = {''biweekly'', ''monthly'', ''less_than_monthly''}"

definition HEAVY_PRODUCTS :: "string set" where
  "HEAVY_PRODUCTS = {''edge_control'', ''pomade'', ''grease'', ''gel'', ''wax''}"

subsection \<open>Input normalisation\<close>

definition get_list :: "string list option \<Rightarrow> string list" where
  "get_list v = (case v of None \<Rightarrow> [] | Some xs \<Rightarrow> xs)"

definition get_str :: "string option \<Rightarrow> string" where
  "get_str v = (case v of None \<Rightarrow> [] | Some s \<Rightarrow> s)"

definition get_bool :: "bool option \<Rightarrow> bool" where
  "get_bool v = (case v of None \<Rightarrow> False | Some b \<Rightarrow> b)"

definition normalize :: "string \<Rightarrow> string" where
  "normalize s = py_strip (py_lower s)"

definition parse_input :: "InputDict \<Rightarrow> TriageInput" where
  "parse_input data =
     \<lparr> symptoms = map normalize (get_list (d_symptoms data)),
       style_type = normalize (get_str (d_style_type data)),
       wash_frequency = normalize (get_str (d_wash_frequency data)),
       product_use = map normalize (get_list (d_product_use data)),
       known_issues = map normalize (get_list (d_known_issues data)),
       image_uploaded = get_bool (d_image_uploaded data) \<rparr>"

subsection \<open>Confidence calculator\<close>

text \<open>
  \<^verbatim>\<open>percentage = (score / max_score) * 100\<close> is computed in exact rational arithmetic.
  The engine calls the calculator with \<open>max_score\<close> in \<open>{7, 8, 10, 11, 12}\<close> and scores of
  at most 12; the only quotients on a band boundary are 7/10 and 4/10, where the
  double-precision product is exactly 70.0 and 40.0, so the bands agree with the floats.
  A zero \<open>max_score\<close> raises \<^verbatim>\<open>ZeroDivisionError\<close>.
\<close>

definition calculate_confidence :: "int \<Rightarrow> int \<Rightarrow> py_error + string" where
  "calculate_confidence score max_score =
     (if max_score = 0 then Inl ZeroDivisionError
      else
        let percentage = (rat_of_int score / rat_of_int max_score) * 100 in
        if percentage \<ge> 70 then Inr (confidence_value HIGH)
        else if percentage \<ge> 40 then Inr (confidence_value MODERATE)
        else Inr (confidence_value LOW))"

subsection \<open>Condition rules\<close>

text \<open>
  Each rule accumulates \<open>score\<close> by \<^verbatim>\<open>score += w\<close> under an \<^verbatim>\<open>if\<close>; the accumulated
  value is the sum of the guarded weights. A rule returns \<open>Inr None\<close> for Python's
  \<^verbatim>\<open>None\<close> (no match), \<open>Inr (Some r)\<close> for a result and \<open>Inl e\<close> for an exception.
  The local variable \<open>score\<close> of each rule is a function of its own
  (\<open>folliculitis_score\<close>, ...), and so is an indicator that a rule reads again after
  scoring (\<open>known_psoriasis\<close>, \<open>tension_has_bumps\<close>, \<open>seborrheic_needs_referral\<close>) or
  that several rules compute alike (\<open>uses_heavy_products\<close>).
\<close>

definition folliculitis_score :: "TriageInput \<Rightarrow> int" where
  "folliculitis_score data =
     (let has_bumps = any_in [''bumps'', ''pustules'', ''pimples'', ''small_bumps'',
                              ''infected_bumps''] (symptoms data);
          has_pain = any_in [''pain'', ''painful'', ''tenderness'', ''tender'', ''sore'',
                             ''soreness''] (symptoms data);
          has_protective_style = (style_type data \<in> PROTECTIVE_STYLES);
          has_inflammation = any_in [''redness'', ''swelling'', ''hot'', ''warm'',
                                     ''inflamed''] (symptoms data)
      in (if has_bumps then 3 else 0) + (if has_pain then 3 else 0)
         + (if has_protective_style then 2 else 0) + (if has_inflammation then 2 else 0))"

definition check_folliculitis :: "TriageInput \<Rightarrow> py_error + TriageResult option" where
  "check_folliculitis data =
     (let score = folliculitis_score data in
      if score \<ge> 5 then
        (case calculate_confidence score 10 of
           Inl e \<Rightarrow> Inl e
         | Inr confidence \<Rightarrow>
             Inr (Some \<lparr> condition_label = label_value FOLLICULITIS,
                         care_plan_id = CARE_PLANS FOLLICULITIS,
                         referral_required = True,
                         confidence_level = confidence,
                         reasoning = ''Bumps and pain with '' @ style_type data
                           @ '' styling suggest folliculitis. ''
                           @ ''This requires professional evaluation to prevent scarring.'',
                         severity_score = 8 \<rparr>))
      else Inr None)"

definition known_psoriasis :: "TriageInput \<Rightarrow> bool" where
  "known_psoriasis data = (''psoriasis'' \<in> set (known_issues data))"

definition psoriasis_score :: "TriageInput \<Rightarrow> int" where
  "psoriasis_score data =
     (let has_scales = any_in [''scales'', ''scaling'', ''thick_scales'', ''silvery_scales'',
                               ''scale_patches'', ''plaques''] (symptoms data);
          has_dryness = any_in [''dryness'', ''dry'', ''very_dry'', ''cracking'']
                               (symptoms data);
          has_itching = any_in [''itching'', ''itchy'', ''irritation''] (symptoms data)
      in (if known_psoriasis data then 5 else 0) + (if has_scales then 4 else 0)
         + (if has_dryness then 2 else 0) + (if has_itching then 1 else 0))"

definition check_psoriasis :: "TriageInput \<Rightarrow> py_error + TriageResult option" where
  "check_psoriasis data =
     (let score = psoriasis_score data in
      if score \<ge> 5 then
        (case calculate_confidence score 12 of
           Inl e \<Rightarrow> Inl e
         | Inr confidence \<Rightarrow>
             Inr (Some \<lparr> condition_label = label_value PSORIASIS,
                         care_plan_id = CARE_PLANS PSORIASIS,
                         referral_required = True,
                         confidence_level = confidence,
                         reasoning =
                           (if known_psoriasis data
                            then ''Known psoriasis history with matching symptoms requires dermatologist management.''
                            else ''Thick scaling and dryness patterns suggest psoriasis. Professional diagnosis recommended.''),
                         severity_score = 7 \<rparr>))
      else Inr None)"

definition tension_has_bumps :: "TriageInput \<Rightarrow> bool" where
  "tension_has_bumps data = any_in [''bumps'', ''pustules'', ''pimples''] (symptoms data)"

definition tension_damage_score :: "TriageInput \<Rightarrow> int" where
  "tension_damage_score data =
     (let has_tenderness = any_in [''tenderness'', ''tender'', ''sore'', ''soreness'',
                                   ''pain'', ''painful''] (symptoms data);
          has_protective_style = (style_type data \<in> PROTECTIVE_STYLES);
          has_hair_loss = any_in [''hair_loss'', ''thinning'', ''bald_spots'',
                                  ''edges_thinning'', ''breakage''] (symptoms data);
          has_bumps = tension_has_bumps data
      in (if has_tenderness \<and> has_protective_style then 5 else 0)
         + (if has_hair_loss then 4 else 0)
         + (if has_tenderness \<and> \<not> has_bumps then 2 else 0))"

definition check_tension_damage :: "TriageInput \<Rightarrow> py_error + TriageResult option" where
  "check_tension_damage data =
     (let score = tension_damage_score data; has_bumps = tension_has_bumps data in
      if score \<ge> 5 \<and> \<not> has_bumps then
        (case calculate_confidence score 11 of
           Inl e \<Rightarrow> Inl e
         | Inr confidence \<Rightarrow>
             Inr (Some \<lparr> condition_label = label_value TENSION_DAMAGE,
                         care_plan_id = CARE_PLANS TENSION_DAMAGE,
                         referral_required = True,
                         confidence_level = confidence,
                         reasoning = ''Scalp tenderness with '' @ style_type data
                           @ '' suggests tension damage. ''
                           @ ''Consult a professional to prevent traction alopecia.'',
                         severity_score = 7 \<rparr>))
      else Inr None)"

definition seborrheic_dermatitis_score :: "TriageInput \<Rightarrow> int" where
  "seborrheic_dermatitis_score data =
     (let has_itching = any_in [''itching'', ''itchy'', ''irritation'', ''scratchy'']
                               (symptoms data);
          has_flaking = any_in [''flaking'', ''flakes'', ''dandruff'', ''white_flakes'',
                                ''yellow_flakes''] (symptoms data);
          has_oily = any_in [''oily'', ''greasy'', ''oily_flakes''] (symptoms data);
          has_redness = (''redness'' \<in> set (symptoms data) \<or> ''red'' \<in> set (symptoms data))
      in (if has_itching \<and> has_flaking then 5
          else if has_itching \<or> has_flaking then 2 else 0)
         + (if has_oily then 2 else 0) + (if has_redness then 1 else 0))"

definition seborrheic_needs_referral :: "TriageInput \<Rightarrow> bool" where
  "seborrheic_needs_referral data =
     (any_in [''severe'', ''worsening'', ''bleeding'', ''crusting''] (symptoms data)
      \<or> ''eczema'' \<in> set (known_issues data))"

definition check_seborrheic_dermatitis :: "TriageInput \<Rightarrow> py_error + TriageResult option" where
  "check_seborrheic_dermatitis data =
     (let score = seborrheic_dermatitis_score data in
      if score \<ge> 4 then
        (case calculate_confidence score 10 of
           Inl e \<Rightarrow> Inl e
         | Inr confidence \<Rightarrow>
             (let needs_referral = seborrheic_needs_referral data in
              Inr (Some \<lparr> condition_label = label_value SEBORRHEIC_DERMATITIS,
                          care_plan_id = CARE_PLANS SEBORRHEIC_DERMATITIS,
                          referral_required = needs_referral,
                          confidence_level = confidence,
                          reasoning = ''Itching and flaking are classic signs of seborrheic dermatitis. ''
                            @ ''Often manageable with medicated shampoos.'',
                          severity_score = (if \<not> needs_referral then 4 else 6) \<rparr>)))
      else Inr None)"

definition uses_heavy_products :: "TriageInput \<Rightarrow> bool" where
  "uses_heavy_products data = (set (product_use data) \<inter> HEAVY_PRODUCTS \<noteq> {})"

definition contact_dermatitis_score :: "TriageInput \<Rightarrow> int" where
  "contact_dermatitis_score data =
     (let has_itching = any_in [''itching'', ''itchy'', ''burning''] (symptoms data);
          has_redness = any_in [''redness'', ''red'', ''inflamed''] (symptoms data);
          has_bumps = any_in [''bumps'', ''rash'', ''hives''] (symptoms data);
          recent_change = any_in [''new_product'', ''recent_reaction'', ''sudden_onset'']
                                 (symptoms data)
      in (if has_itching \<and> has_redness then 3 else 0)
         + (if has_bumps \<and> \<not> any_in [''pustules'', ''pus''] (symptoms data) then 2 else 0)
         + (if uses_heavy_products data \<or> recent_change then 2 else 0))"

definition check_contact_dermatitis :: "TriageInput \<Rightarrow> py_error + TriageResult option" where
  "check_contact_dermatitis data =
     (let score = contact_dermatitis_score data in
      if score \<ge> 4 then
        (case calculate_confidence score 7 of
           Inl e \<Rightarrow> Inl e
         | Inr confidence \<Rightarrow>
             Inr (Some \<lparr> condition_label = label_value CONTACT_DERMATITIS,
                         care_plan_id = CARE_PLANS CONTACT_DERMATITIS,
                         referral_required = False,
                         confidence_level = confidence,
                         reasoning = ''Symptoms suggest possible contact dermatitis from hair products. ''
                           @ ''Consider eliminating products one at a time.'',
                         severity_score = 4 \<rparr>))
      else Inr None)"

definition scalp_acne_score :: "TriageInput \<Rightarrow> int" where
  "scalp_acne_score data =
     (let has_bumps = any_in [''bumps'', ''pimples'', ''small_bumps''] (symptoms data);
          has_oily = any_in [''oily'', ''greasy''] (symptoms data);
          no_pain = (\<not> any_in [''pain'', ''painful'', ''tender'', ''sore''] (symptoms data));
          not_protective_style = (style_type data \<notin> PROTECTIVE_STYLES)
      in (if has_bumps \<and> no_pain then 3 else 0) + (if has_oily then 2 else 0)
         + (if uses_heavy_products data then 2 else 0)
         + (if not_protective_style then 1 else 0))"

definition check_scalp_acne :: "TriageInput \<Rightarrow> py_error + TriageResult option" where
  "check_scalp_acne data =
     (let score = scalp_acne_score data in
      if score \<ge> 4 then
        (case calculate_confidence score 8 of
           Inl e \<Rightarrow> Inl e
         | Inr confidence \<Rightarrow>
             Inr (Some \<lparr> condition_label = label_value SCALP_ACNE,
                         care_plan_id = CARE_PLANS SCALP_ACNE,
                         referral_required = False,
                         confidence_level = confidence,
                         reasoning = ''Bumps and product buildup suggest scalp acne. ''
                           @ ''Try clarifying shampoo and reducing heavy products.'',
                         severity_score = 3 \<rparr>))
      else Inr None)"

definition product_buildup_score :: "TriageInput \<Rightarrow> int" where
  "product_buildup_score data =
     (let has_flaking = any_in [''flaking'', ''flakes'', ''buildup''] (symptoms data);
          low_wash = (wash_frequency data \<in> LOW_WASH_FREQUENCIES);
          has_itching = (''itching'' \<in> set (symptoms data) \<or> ''itchy'' \<in> set (symptoms data))
      in (if has_flaking \<and> \<not> has_itching then 3 else 0)
         + (if uses_heavy_products data \<and> low_wash then 3 else 0)
         + (if length (product_use data) \<ge> 3 then 1 else 0))"

definition check_product_buildup :: "TriageInput \<Rightarrow> py_error + TriageResult option" where
  "check_product_buildup data =
     (let score = product_buildup_score data in
      if score \<ge> 4 then
        (case calculate_confidence score 7 of
           Inl e \<Rightarrow> Inl e
         | Inr confidence \<Rightarrow>
             Inr (Some \<lparr> condition_label = label_value PRODUCT_BUILDUP,
                         care_plan_id = CARE_PLANS PRODUCT_BUILDUP,
                         referral_required = False,
                         confidence_level = confidence,
                         reasoning = ''Product buildup from styling products. ''
                           @ ''Consider clarifying treatments and adjusting wash routine.'',
                         severity_score = 2 \<rparr>))
      else Inr None)"

definition dry_scalp_score :: "TriageInput \<Rightarrow> int" where
  "dry_scalp_score data =
     (let has_dryness = any_in [''dryness'', ''dry'', ''tight'', ''flaking''] (symptoms data);
          low_wash = (wash_frequency data \<in> LOW_WASH_FREQUENCIES);
          minimal_symptoms = (length (symptoms data) \<le> 2)
      in (if has_dryness then 3 else 0)
         + (if low_wash \<and> \<not> list_ex (\<lambda>p. py_contains ''oil'' p) (product_use data)
            then 2 else 0)
         + (if minimal_symptoms then 1 else 0))"

definition check_dry_scalp :: "TriageInput \<Rightarrow> py_error + TriageResult option" where
  "check_dry_scalp data =
     (let score = dry_scalp_score data in
      if score \<ge> 3 then
        (let confidence = confidence_value MODERATE in
         Inr (Some \<lparr> condition_label = label_value DRY_SCALP,
                     care_plan_id = CARE_PLANS DRY_SCALP,
                     referral_required = False,
                     confidence_level = confidence,
                     reasoning = ''Dry scalp symptoms. Increase moisture with oils and gentle cleansing.'',
                     severity_score = 2 \<rparr>))
      else Inr None)"

definition create_unclear_result :: "TriageInput \<Rightarrow> TriageResult" where
  "create_unclear_result data =
     \<lparr> condition_label = label_value UNCLEAR,
       care_plan_id = CARE_PLANS UNCLEAR,
       referral_required = True,
       confidence_level = confidence_value LOW,
       reasoning = ''Symptoms don't clearly match a single condition. ''
         @ ''Professional evaluation recommended for accurate diagnosis.'',
       severity_score = 5 \<rparr>"

subsection \<open>Rule chain\<close>

definition rule_chain :: "(TriageInput \<Rightarrow> py_error + TriageResult option) list" where
  "rule_chain =
     [check_folliculitis, check_psoriasis, check_tension_damage,
      check_seborrheic_dermatitis, check_contact_dermatitis, check_scalp_acne,
      check_product_buildup, check_dry_scalp]"

text \<open>The \<^verbatim>\<open>for rule_func in self.rule_chain\<close> loop, returning at the first result.\<close>

fun run_rules ::
  "(TriageInput \<Rightarrow> py_error + TriageResult option) list \<Rightarrow> TriageInput
    \<Rightarrow> py_error + TriageResult" where
  "run_rules [] input_data = Inr (create_unclear_result input_data)"
| "run_rules (rule_func # rest) input_data =
     (case rule_func input_data of
        Inl e \<Rightarrow> Inl e
      | Inr (Some result) \<Rightarrow> Inr result
      | Inr None \<Rightarrow> run_rules rest input_data)"

definition run_decision_tree :: "TriageInput \<Rightarrow> py_error + TriageResult" where
  "run_decision_tree input_data = run_rules rule_chain input_data"

subsection \<open>Referral override and output\<close>

definition severe_symptoms :: "TriageInput \<Rightarrow> bool" where
  "severe_symptoms data =
     any_in [''bleeding'', ''pus'', ''oozing'', ''crusting'', ''severe'',
             ''worsening'', ''spreading'', ''fever''] (symptoms data)"

definition hair_loss_with_pain :: "TriageInput \<Rightarrow> bool" where
  "hair_loss_with_pain data =
     (any_in [''hair_loss'', ''bald_spots''] (symptoms data)
      \<and> any_in [''pain'', ''tenderness''] (symptoms data))"

definition known_chronic_condition :: "TriageInput \<Rightarrow> bool" where
  "known_chronic_condition data =
     list_ex (\<lambda>condition. condition \<in> set (known_issues data))
       [''psoriasis'', ''eczema'', ''lupus'', ''autoimmune'']"

definition urgent_notice :: string where
  "urgent_notice = '' URGENT: Severe symptoms require immediate professional evaluation.''"

definition monitoring_notice :: string where
  "monitoring_notice = '' Note: Known condition warrants professional monitoring.''"

text \<open>The two in-place updates of \<open>result\<close> become two record updates in sequence.\<close>

definition apply_referral_rules :: "TriageResult \<Rightarrow> TriageInput \<Rightarrow> TriageResult" where
  "apply_referral_rules result data =
     (let result1 =
            (if severe_symptoms data \<or> hair_loss_with_pain data
             then result\<lparr> referral_required := True,
                          severity_score := max (severity_score result) 8,
                          reasoning := reasoning result @ urgent_notice \<rparr>
             else result);
          result2 =
            (if known_chronic_condition data \<and> \<not> referral_required result1
             then result1\<lparr> referral_required := True,
                           reasoning := reasoning result1 @ monitoring_notice \<rparr>
             else result1)
      in result2)"

text \<open>The output dictionary has the six keys of the result; it is modelled by the same record.\<close>

definition format_output :: "TriageResult \<Rightarrow> TriageResult" where
  "format_output result =
     \<lparr> condition_label = condition_label result,
       care_plan_id = care_plan_id result,
       referral_required = referral_required result,
       confidence_level = confidence_level result,
       reasoning = reasoning result,
       severity_score = severity_score result \<rparr>"

definition classify :: "InputDict \<Rightarrow> py_error + TriageResult" where
  "classify input_data =
     (let triage_input = parse_input input_data in
      case run_decision_tree triage_input of
        Inl e \<Rightarrow> Inl e
      | Inr result \<Rightarrow> Inr (format_output (apply_referral_rules result triage_input)))"

subsection \<open>Definitions used to state the properties\<close>

text \<open>
  The confidence bands in the words of the specification (section 4.5):
  percentage = score / max\_score * 100; at least 70 is high, at least 40 and below 70 is
  moderate, below 40 is low.
\<close>

definition confidence_band :: "int \<Rightarrow> int \<Rightarrow> string" where
  "confidence_band score max_score =
     (let percentage = rat_of_int score / rat_of_int max_score * 100 in
      if percentage \<ge> 70 then ''high''
      else if percentage \<ge> 40 \<and> percentage < 70 then ''moderate''
      else ''low'')"

text \<open>
  What the rule chain returns, by case: which scores cleared their thresholds and the
  fields of the result in that case.
\<close>

definition tree_outcome :: "TriageInput \<Rightarrow> TriageResult \<Rightarrow> bool" where
  "tree_outcome p r =
     ( (folliculitis_score p \<ge> 5 \<and> condition_label r = ''folliculitis''
          \<and> care_plan_id r = ''CP-002'' \<and> referral_required r \<and> severity_score r = 8
          \<and> confidence_level r = confidence_band (folliculitis_score p) 10)
     \<or> (folliculitis_score p < 5 \<and> psoriasis_score p \<ge> 5 \<and> condition_label r = ''psoriasis''
          \<and> care_plan_id r = ''CP-003'' \<and> referral_required r \<and> severity_score r = 7
          \<and> confidence_level r = confidence_band (psoriasis_score p) 12)
     \<or> (folliculitis_score p < 5 \<and> psoriasis_score p < 5 \<and> tension_damage_score p \<ge> 5
          \<and> \<not> tension_has_bumps p \<and> condition_label r = ''tension_damage''
          \<and> care_plan_id r = ''CP-005'' \<and> referral_required r \<and> severity_score r = 7
          \<and> confidence_level r = confidence_band (tension_damage_score p) 11)
     \<or> (folliculitis_score p < 5 \<and> psoriasis_score p < 5 \<and> tension_damage_score p < 5
          \<and> seborrheic_dermatitis_score p \<ge> 4 \<and> condition_label r = ''seborrheic_dermatitis''
          \<and> care_plan_id r = ''CP-001'' \<and> referral_required r = seborrheic_needs_referral p
          \<and> severity_score r = (if seborrheic_needs_referral p then 6 else 4)
          \<and> confidence_level r = confidence_band (seborrheic_dermatitis_score p) 10)
     \<or> (folliculitis_score p < 5 \<and> psoriasis_score p < 5 \<and> tension_damage_score p < 5
          \<and> seborrheic_dermatitis_score p < 4 \<and> contact_dermatitis_score p \<ge> 4
          \<and> condition_label r = ''contact_dermatitis''
          \<and> care_plan_id r = ''CP-007'' \<and> \<not> referral_required r \<and> severity_score r = 4
          \<and> confidence_level r = confidence_band (contact_dermatitis_score p) 7)
     \<or> (folliculitis_score p < 5 \<and> psoriasis_score p < 5 \<and> tension_damage_score p < 5
          \<and> seborrheic_dermatitis_score p < 4 \<and> contact_dermatitis_score p < 4
          \<and> scalp_acne_score p \<ge> 4 \<and> condition_label r = ''scalp_acne''
          \<and> care_plan_id r = ''CP-004'' \<and> \<not> referral_required r \<and> severity_score r = 3
          \<and> confidence_level r = confidence_band (scalp_acne_score p) 8)
     \<or> (folliculitis_score p < 5 \<and> psoriasis_score p < 5 \<and> tension_damage_score p < 5
          \<and> seborrheic_dermatitis_score p < 4 \<and> contact_dermatitis_score p < 4
          \<and> scalp_acne_score p < 4 \<and> product_buildup_score p \<ge> 4
          \<and> condition_label r = ''product_buildup''
          \<and> care_plan_id r = ''CP-006'' \<and> \<not> referral_required r \<and> severity_score r = 2
          \<and> confidence_level r = confidence_band (product_buildup_score p) 7)
     \<or> (folliculitis_score p < 5 \<and> psoriasis_score p < 5 \<and> tension_damage_score p < 5
          \<and> seborrheic_dermatitis_score p < 4 \<and> contact_dermatitis_score p < 4
          \<and> scalp_acne_score p < 4 \<and> product_buildup_score p < 4 \<and> dry_scalp_score p \<ge> 3
          \<and> condition_label r = ''dry_scalp''
          \<and> care_plan_id r = ''CP-006'' \<and> \<not> referral_required r \<and> severity_score r = 2
          \<and> confidence_level r = ''moderate'')
     \<or> (folliculitis_score p < 5 \<and> psoriasis_score p < 5 \<and> tension_damage_score p < 5
          \<and> seborrheic_dermatitis_score p < 4 \<and> contact_dermatitis_score p < 4
          \<and> scalp_acne_score p < 4 \<and> product_buildup_score p < 4 \<and> dry_scalp_score p < 3
          \<and> r = create_unclear_result p) )"

text \<open>Example inputs: the end-to-end examples of the specification and a few more.\<close>

definition make_input ::
  "string list \<Rightarrow> string \<Rightarrow> string \<Rightarrow> string list \<Rightarrow> string list \<Rightarrow> InputDict" where
  "make_input s st w pr k =
     \<lparr> d_symptoms = Some s, d_style_type = Some st, d_wash_frequency = Some w,
       d_product_use = Some pr, d_known_issues = Some k, d_image_uploaded = None \<rparr>"

definition example_seborrheic :: InputDict where
  "example_seborrheic = make_input [''itching'', ''flaking''] ''natural'' ''weekly'' [''oil''] []"

definition example_dry_scalp :: InputDict where
  "example_dry_scalp = make_input [''dryness''] ''none'' ''monthly'' [] []"

definition example_bleeding :: InputDict where
  "example_bleeding = make_input [''bleeding''] ''none'' ''weekly'' [] []"

definition fallback_text :: string where
  "fallback_text = ''Symptoms don't clearly match a single condition. ''
     @ ''Professional evaluation recommended for accurate diagnosis.''"

text \<open>
  The input with one more token, inserted at position \<open>n\<close> of \<open>symptoms\<close> or of
  \<open>product_use\<close> (a missing key counts as the empty list).
\<close>

definition add_symptom :: "nat \<Rightarrow> string \<Rightarrow> InputDict \<Rightarrow> InputDict" where
  "add_symptom n t d =
     d\<lparr> d_symptoms := Some (take n (get_list (d_symptoms d)) @ t # drop n (get_list (d_symptoms d))) \<rparr>"

definition add_product :: "nat \<Rightarrow> string \<Rightarrow> InputDict \<Rightarrow> InputDict" where
  "add_product n t d =
     d\<lparr> d_product_use := Some (take n (get_list (d_product_use d)) @ t # drop n (get_list (d_product_use d))) \<rparr>"

text \<open>
  Every token that some rule, or the referral override, looks for in \<open>symptoms\<close>.
\<close>

definition symptom_tokens :: "string list" where
  "symptom_tokens =
     [''bumps'', ''pustules'', ''pimples'', ''small_bumps'', ''infected_bumps'',
      ''pain'', ''painful'', ''tenderness'', ''tender'', ''sore'', ''soreness'',
      ''redness'', ''swelling'', ''hot'', ''warm'', ''inflamed'',
      ''scales'', ''scaling'', ''thick_scales'', ''silvery_scales'', ''scale_patches'',
      ''plaques'', ''dryness'', ''dry'', ''very_dry'', ''cracking'',
      ''itching'', ''itchy'', ''irritation'',
      ''hair_loss'', ''thinning'', ''bald_spots'', ''edges_thinning'', ''breakage'',
      ''scratchy'', ''flaking'', ''flakes'', ''dandruff'', ''white_flakes'', ''yellow_flakes'',
      ''oily'', ''greasy'', ''oily_flakes'', ''red'',
      ''severe'', ''worsening'', ''bleeding'', ''crusting'',
      ''burning'', ''rash'', ''hives'', ''new_product'', ''recent_reaction'', ''sudden_onset'',
      ''pus'', ''buildup'', ''tight'', ''oozing'', ''spreading'', ''fever'']"

text \<open>
  Two normalised inputs agree on everything the rules look at: membership of the known
  symptom tokens, the two size tests, the heavy-product and oil tests, and the remaining
  fields.
\<close>

definition same_indicators :: "TriageInput \<Rightarrow> TriageInput \<Rightarrow> bool" where
  "same_indicators p' p =
     ((\<forall>s \<in> set symptom_tokens. (s \<in> set (symptoms p')) = (s \<in> set (symptoms p)))
      \<and> (length (symptoms p') \<le> 2) = (length (symptoms p) \<le> 2)
      \<and> uses_heavy_products p' = uses_heavy_products p
      \<and> list_ex (\<lambda>x. py_contains ''oil'' x) (product_use p')
          = list_ex (\<lambda>x. py_contains ''oil'' x) (product_use p)
      \<and> (3 \<le> length (product_use p')) = (3 \<le> length (product_use p))
      \<and> style_type p' = style_type p \<and> wash_frequency p' = wash_frequency p
      \<and> known_issues p' = known_issues p)"

definition example_both :: InputDict where
  "example_both = make_input [''bumps'', ''pain'', ''itching'', ''flaking''] ''natural'' ''weekly'' [] []"

definition example_tension_bumps :: InputDict where
  "example_tension_bumps =
     make_input [''tenderness'', ''hair_loss'', ''bumps''] ''braids'' ''weekly'' [] []"

definition example_unclear :: InputDict where
  "example_unclear = make_input [''fatigue''] ''natural'' ''weekly'' [] []"

definition example_two_symptoms :: InputDict where
  "example_two_symptoms = make_input [''itching'', ''redness''] ''none'' ''monthly'' [] []"

definition example_two_products :: InputDict where
  "example_two_products =
     make_input [''flaking''] ''none'' ''weekly'' [''shampoo'', ''conditioner''] []"

definition example_two_symptoms_dup :: InputDict where
  "example_two_symptoms_dup =
     make_input [''itching'', ''redness'', ''itching''] ''none'' ''monthly'' [] []"

definition example_two_products_dup :: InputDict where
  "example_two_products_dup =
     make_input [''flaking''] ''none'' ''weekly'' [''shampoo'', ''conditioner'', ''shampoo''] []"

section \<open>Properties\<close>

subsection \<open>Auxiliary facts\<close>

lemma calculate_confidence_band:
  "max_score \<noteq> 0 \<Longrightarrow> calculate_confidence score max_score = Inr (confidence_band score max_score)"
  by (simp add: calculate_confidence_def confidence_band_def Let_def)

lemma confidence_band_cases:
  "confidence_band s m = ''low'' \<or> confidence_band s m = ''moderate'' \<or> confidence_band s m = ''high''"
  by (simp add: confidence_band_def Let_def)

lemma format_output_id: "format_output r = r"
  by (cases r) (simp add: format_output_def)

lemma tension_bumps_folliculitis:
  "tension_damage_score p \<ge> 5 \<Longrightarrow> tension_has_bumps p \<Longrightarrow> folliculitis_score p \<ge> 5"
  by (auto simp add: tension_damage_score_def tension_has_bumps_def folliculitis_score_def
      any_in_def Let_def split: if_splits)

lemma run_decision_tree_result:
  "\<exists>r. run_decision_tree p = Inr r \<and> tree_outcome p r"
proof -
  have nb: "tension_has_bumps p \<and> \<not> 5 \<le> folliculitis_score p \<longrightarrow> tension_damage_score p < 5"
    using tension_bumps_folliculitis [of p] by linarith
  show ?thesis
    using nb
    by (auto simp add: tree_outcome_def run_decision_tree_def rule_chain_def check_folliculitis_def
        check_psoriasis_def check_tension_damage_def check_seborrheic_dermatitis_def
        check_contact_dermatitis_def check_scalp_acne_def check_product_buildup_def
        check_dry_scalp_def calculate_confidence_band Let_def)
qed

lemma apply_referral_rules_label:
  "condition_label (apply_referral_rules r p) = condition_label r"
  "care_plan_id (apply_referral_rules r p) = care_plan_id r"
  "confidence_level (apply_referral_rules r p) = confidence_level r"
  by (simp_all add: apply_referral_rules_def Let_def)

lemma apply_referral_rules_severity:
  "severity_score (apply_referral_rules r p) =
     (if severe_symptoms p \<or> hair_loss_with_pain p then max (severity_score r) 8
      else severity_score r)"
  by (simp add: apply_referral_rules_def Let_def)

lemma apply_referral_rules_referral:
  "referral_required (apply_referral_rules r p) =
     (referral_required r \<or> severe_symptoms p \<or> hair_loss_with_pain p
      \<or> known_chronic_condition p)"
  by (auto simp add: apply_referral_rules_def Let_def)

lemma apply_referral_rules_reasoning:
  "reasoning (apply_referral_rules r p) =
     reasoning r @
       (if severe_symptoms p \<or> hair_loss_with_pain p then urgent_notice
        else if known_chronic_condition p \<and> \<not> referral_required r then monitoring_notice
        else [])"
  by (simp add: apply_referral_rules_def Let_def)

lemma classify_via_tree:
  "run_decision_tree (parse_input d) = Inr b \<Longrightarrow>
     classify d = Inr (apply_referral_rules b (parse_input d))"
  by (simp add: classify_def Let_def format_output_id)

lemma tree_outcome_severity:
  "tree_outcome p r \<Longrightarrow> 2 \<le> severity_score r \<and> severity_score r \<le> 8"
  unfolding tree_outcome_def
  by (elim disjE conjE) (simp_all add: create_unclear_result_def)

lemma tree_outcome_care_plan:
  "tree_outcome p r \<Longrightarrow> \<exists>l. condition_label r = label_value l \<and> care_plan_id r = CARE_PLANS l"
  unfolding tree_outcome_def
proof (elim disjE conjE)
  assume "r = create_unclear_result p"
  then have "condition_label r = label_value UNCLEAR \<and> care_plan_id r = CARE_PLANS UNCLEAR"
    by (simp add: create_unclear_result_def)
  then show ?thesis by blast
next
  assume "condition_label r = ''folliculitis''" "care_plan_id r = ''CP-002''"
  then have "condition_label r = label_value FOLLICULITIS \<and> care_plan_id r = CARE_PLANS FOLLICULITIS"
    by simp
  then show ?thesis by blast
next
  assume "condition_label r = ''psoriasis''" "care_plan_id r = ''CP-003''"
  then have "condition_label r = label_value PSORIASIS \<and> care_plan_id r = CARE_PLANS PSORIASIS"
    by simp
  then show ?thesis by blast
next
  assume "condition_label r = ''tension_damage''" "care_plan_id r = ''CP-005''"
  then have "condition_label r = label_value TENSION_DAMAGE \<and> care_plan_id r = CARE_PLANS TENSION_DAMAGE"
    by simp
  then show ?thesis by blast
next
  assume "condition_label r = ''seborrheic_dermatitis''" "care_plan_id r = ''CP-001''"
  then have "condition_label r = label_value SEBORRHEIC_DERMATITIS
      \<and> care_plan_id r = CARE_PLANS SEBORRHEIC_DERMATITIS"
    by simp
  then show ?thesis by blast
next
  assume "condition_label r = ''contact_dermatitis''" "care_plan_id r = ''CP-007''"
  then have "condition_label r = label_value CONTACT_DERMATITIS
      \<and> care_plan_id r = CARE_PLANS CONTACT_DERMATITIS"
    by simp
  then show ?thesis by blast
next
  assume "condition_label r = ''scalp_acne''" "care_plan_id r = ''CP-004''"
  then have "condition_label r = label_value SCALP_ACNE \<and> care_plan_id r = CARE_PLANS SCALP_ACNE"
    by simp
  then show ?thesis by blast
next
  assume "condition_label r = ''product_buildup''" "care_plan_id r = ''CP-006''"
  then have "condition_label r = label_value PRODUCT_BUILDUP
      \<and> care_plan_id r = CARE_PLANS PRODUCT_BUILDUP"
    by simp
  then show ?thesis by blast
next
  assume "condition_label r = ''dry_scalp''" "care_plan_id r = ''CP-006''"
  then have "condition_label r = label_value DRY_SCALP \<and> care_plan_id r = CARE_PLANS DRY_SCALP"
    by simp
  then show ?thesis by blast
qed

lemma tree_outcome_label:
  "tree_outcome p r \<Longrightarrow>
     condition_label r \<in> {''seborrheic_dermatitis'', ''folliculitis'', ''psoriasis'',
          ''scalp_acne'', ''tension_damage'', ''product_buildup'', ''dry_scalp'',
          ''contact_dermatitis'', ''unclear''}"
  unfolding tree_outcome_def
  by (elim disjE conjE) (simp_all add: create_unclear_result_def)

lemma tree_outcome_confidence:
  "tree_outcome p r \<Longrightarrow> confidence_level r \<in> {''low'', ''moderate'', ''high''}"
  unfolding tree_outcome_def
  by (elim disjE conjE) (simp_all add: create_unclear_result_def confidence_band_cases)

lemma example_bleeding_result:
  "classify example_bleeding =
     Inr \<lparr> condition_label = ''unclear'', care_plan_id = ''CP-999'',
           referral_required = True, confidence_level = ''low'',
           reasoning = fallback_text @ urgent_notice, severity_score = 8 \<rparr>"
  by code_simp

lemma example_dry_scalp_result:
  "classify example_dry_scalp =
     Inr \<lparr> condition_label = ''dry_scalp'', care_plan_id = ''CP-006'',
           referral_required = False, confidence_level = ''moderate'',
           reasoning = ''Dry scalp symptoms. Increase moisture with oils and gentle cleansing.'',
           severity_score = 2 \<rparr>"
  by code_simp

lemma tree_outcome_label_chain:
  "tree_outcome p r \<Longrightarrow>
     condition_label r =
       (if folliculitis_score p \<ge> 5 then ''folliculitis''
        else if psoriasis_score p \<ge> 5 then ''psoriasis''
        else if tension_damage_score p \<ge> 5 then ''tension_damage''
        else if seborrheic_dermatitis_score p \<ge> 4 then ''seborrheic_dermatitis''
        else if contact_dermatitis_score p \<ge> 4 then ''contact_dermatitis''
        else if scalp_acne_score p \<ge> 4 then ''scalp_acne''
        else if product_buildup_score p \<ge> 4 then ''product_buildup''
        else if dry_scalp_score p \<ge> 3 then ''dry_scalp''
        else ''unclear'')"
  unfolding tree_outcome_def
  by (elim disjE conjE) (simp_all add: create_unclear_result_def)

lemma tree_outcome_confidence_by_label:
  "tree_outcome p r \<Longrightarrow>
     (condition_label r = ''folliculitis''
        \<longrightarrow> confidence_level r = confidence_band (folliculitis_score p) 10)
   \<and> (condition_label r = ''psoriasis''
        \<longrightarrow> confidence_level r = confidence_band (psoriasis_score p) 12)
   \<and> (condition_label r = ''tension_damage''
        \<longrightarrow> confidence_level r = confidence_band (tension_damage_score p) 11)
   \<and> (condition_label r = ''seborrheic_dermatitis''
        \<longrightarrow> confidence_level r = confidence_band (seborrheic_dermatitis_score p) 10)
   \<and> (condition_label r = ''contact_dermatitis''
        \<longrightarrow> confidence_level r = confidence_band (contact_dermatitis_score p) 7)
   \<and> (condition_label r = ''scalp_acne''
        \<longrightarrow> confidence_level r = confidence_band (scalp_acne_score p) 8)
   \<and> (condition_label r = ''product_buildup''
        \<longrightarrow> confidence_level r = confidence_band (product_buildup_score p) 7)
   \<and> (condition_label r = ''dry_scalp'' \<longrightarrow> confidence_level r = ''moderate'')"
  unfolding tree_outcome_def
  by (elim disjE conjE) (simp_all add: create_unclear_result_def)

lemma override_fires:
  "severe_symptoms p \<or> hair_loss_with_pain p \<Longrightarrow>
     apply_referral_rules b p =
       b\<lparr> referral_required := True, severity_score := max (severity_score b) 8,
          reasoning := reasoning b @ urgent_notice \<rparr>"
  by (simp add: apply_referral_rules_def Let_def)

lemma tension_disqualified:
  "tension_has_bumps p \<Longrightarrow> check_tension_damage p = Inr None"
  by (simp add: check_tension_damage_def Let_def)

lemma classify_total: "\<exists>r. classify d = Inr r"
  using run_decision_tree_result [of "parse_input d"] classify_via_tree [of d] by blast

lemma classify_severity_le_8:
  assumes "classify d = Inr r"
  shows "severity_score r \<le> 8"
proof -
  obtain b where b: "run_decision_tree (parse_input d) = Inr b"
    and o: "tree_outcome (parse_input d) b"
    using run_decision_tree_result by blast
  have "severity_score b \<le> 8" using tree_outcome_severity [OF o] by simp
  moreover have "r = apply_referral_rules b (parse_input d)"
    using classify_via_tree [OF b] assms by simp
  ultimately show ?thesis by (simp add: apply_referral_rules_severity)
qed

lemma same_indicators_scores:
  assumes "same_indicators p' p"
  shows "folliculitis_score p' = folliculitis_score p"
    and "psoriasis_score p' = psoriasis_score p"
    and "known_psoriasis p' = known_psoriasis p"
    and "tension_has_bumps p' = tension_has_bumps p"
    and "tension_damage_score p' = tension_damage_score p"
    and "seborrheic_dermatitis_score p' = seborrheic_dermatitis_score p"
    and "seborrheic_needs_referral p' = seborrheic_needs_referral p"
    and "contact_dermatitis_score p' = contact_dermatitis_score p"
    and "scalp_acne_score p' = scalp_acne_score p"
    and "product_buildup_score p' = product_buildup_score p"
    and "dry_scalp_score p' = dry_scalp_score p"
    and "severe_symptoms p' = severe_symptoms p"
    and "hair_loss_with_pain p' = hair_loss_with_pain p"
    and "known_chronic_condition p' = known_chronic_condition p"
  using assms
  unfolding same_indicators_def symptom_tokens_def
  by (simp_all add: folliculitis_score_def psoriasis_score_def known_psoriasis_def
      tension_has_bumps_def tension_damage_score_def seborrheic_dermatitis_score_def
      seborrheic_needs_referral_def contact_dermatitis_score_def scalp_acne_score_def
      product_buildup_score_def dry_scalp_score_def severe_symptoms_def
      hair_loss_with_pain_def known_chronic_condition_def any_in_def)

lemma same_indicators_tree:
  assumes "same_indicators p' p"
  shows "run_decision_tree p' = run_decision_tree p"
proof -
  have st: "style_type p' = style_type p"
    using assms by (simp add: same_indicators_def)
  show ?thesis
    by (simp add: run_decision_tree_def rule_chain_def check_folliculitis_def
        check_psoriasis_def check_tension_damage_def check_seborrheic_dermatitis_def
        check_contact_dermatitis_def check_scalp_acne_def check_product_buildup_def
        check_dry_scalp_def create_unclear_result_def Let_def calculate_confidence_band
        same_indicators_scores [OF assms] st)
qed

lemma same_indicators_override:
  assumes "same_indicators p' p"
  shows "apply_referral_rules r p' = apply_referral_rules r p"
  by (simp add: apply_referral_rules_def same_indicators_scores [OF assms])

lemma same_indicators_classify:
  assumes "same_indicators (parse_input d') (parse_input d)"
  shows "classify d' = classify d"
  by (simp add: classify_def Let_def same_indicators_tree [OF assms]
      same_indicators_override [OF assms] split: sum.split)

lemma set_insert_at: "set (take n xs @ u # drop n xs) = insert u (set xs)"
proof -
  have "set (take n xs) \<union> set (drop n xs) = set xs"
    by (metis append_take_drop_id set_append)
  then show ?thesis by auto
qed

lemma list_ex_insert_at:
  "list_ex P (take n xs @ u # drop n xs) = (P u \<or> list_ex P xs)"
  unfolding list_ex_iff set_insert_at by auto

lemma parse_add_symptom:
  "parse_input (add_symptom n t d) =
     (parse_input d)\<lparr> symptoms :=
        take n (symptoms (parse_input d)) @ normalize t # drop n (symptoms (parse_input d)) \<rparr>"
  by (simp add: parse_input_def add_symptom_def get_list_def take_map drop_map)

lemma parse_add_product:
  "parse_input (add_product n t d) =
     (parse_input d)\<lparr> product_use :=
        take n (product_use (parse_input d)) @ normalize t
          # drop n (product_use (parse_input d)) \<rparr>"
  by (simp add: parse_input_def add_product_def get_list_def take_map drop_map)

lemma add_symptom_same_indicators:
  assumes "normalize t \<notin> set symptom_tokens"
    and "length (get_list (d_symptoms d)) \<noteq> 2"
  shows "same_indicators (parse_input (add_symptom n t d)) (parse_input d)"
proof -
  let ?p = "parse_input d" and ?p' = "parse_input (add_symptom n t d)"
  have len: "length (symptoms ?p) \<noteq> 2"
    using assms(2) by (simp add: parse_input_def)
  have s: "set (symptoms ?p') = insert (normalize t) (set (symptoms ?p))"
    by (simp add: parse_add_symptom set_insert_at del: set_append)
  have l: "length (symptoms ?p') = Suc (length (symptoms ?p))"
    by (simp add: parse_add_symptom)
  have mem: "\<forall>s \<in> set symptom_tokens. (s \<in> set (symptoms ?p')) = (s \<in> set (symptoms ?p))"
    unfolding s using assms(1) by auto
  have l2: "(length (symptoms ?p') \<le> 2) = (length (symptoms ?p) \<le> 2)"
    unfolding l using len by arith
  have rest: "product_use ?p' = product_use ?p" "style_type ?p' = style_type ?p"
    "wash_frequency ?p' = wash_frequency ?p" "known_issues ?p' = known_issues ?p"
    by (simp_all add: parse_add_symptom)
  show ?thesis
    unfolding same_indicators_def uses_heavy_products_def rest
    using mem l2 by simp
qed

lemma add_product_same_indicators:
  assumes "normalize t \<notin> HEAVY_PRODUCTS"
    and "\<not> py_contains ''oil'' (normalize t)"
    and "length (get_list (d_product_use d)) \<noteq> 2"
  shows "same_indicators (parse_input (add_product n t d)) (parse_input d)"
proof -
  let ?p = "parse_input d" and ?p' = "parse_input (add_product n t d)"
  have len: "length (product_use ?p) \<noteq> 2"
    using assms(3) by (simp add: parse_input_def)
  have s: "set (product_use ?p') = insert (normalize t) (set (product_use ?p))"
    by (simp add: parse_add_product set_insert_at del: set_append)
  have l: "length (product_use ?p') = Suc (length (product_use ?p))"
    by (simp add: parse_add_product)
  have heavy: "uses_heavy_products ?p' = uses_heavy_products ?p"
    unfolding uses_heavy_products_def s using assms(1) by auto
  have oil: "list_ex (\<lambda>x. py_contains ''oil'' x) (product_use ?p')
      = list_ex (\<lambda>x. py_contains ''oil'' x) (product_use ?p)"
    unfolding list_ex_iff s using assms(2) by auto
  have l3: "(3 \<le> length (product_use ?p')) = (3 \<le> length (product_use ?p))"
    unfolding l using len by arith
  have rest: "symptoms ?p' = symptoms ?p" "style_type ?p' = style_type ?p"
    "wash_frequency ?p' = wash_frequency ?p" "known_issues ?p' = known_issues ?p"
    by (simp_all add: parse_add_product)
  show ?thesis
    unfolding same_indicators_def rest
    using heavy oil l3 by simp
qed

lemma replace_lists_same_indicators:
  assumes "set s' = set (get_list (d_symptoms d))"
    and "(length s' \<le> 2) = (length (get_list (d_symptoms d)) \<le> 2)"
    and "set pr' = set (get_list (d_product_use d))"
    and "(3 \<le> length pr') = (3 \<le> length (get_list (d_product_use d)))"
  shows "same_indicators (parse_input (d\<lparr> d_symptoms := Some s', d_product_use := Some pr' \<rparr>))
           (parse_input d)"
proof -
  let ?p = "parse_input d"
  let ?p' = "parse_input (d\<lparr> d_symptoms := Some s', d_product_use := Some pr' \<rparr>)"
  have s: "set (symptoms ?p') = set (symptoms ?p)"
    using assms(1) by (simp add: parse_input_def get_list_def)
  have pr: "set (product_use ?p') = set (product_use ?p)"
    using assms(3) by (simp add: parse_input_def get_list_def)
  have l2: "(length (symptoms ?p') \<le> 2) = (length (symptoms ?p) \<le> 2)"
    using assms(2) by (simp add: parse_input_def get_list_def)
  have l3: "(3 \<le> length (product_use ?p')) = (3 \<le> length (product_use ?p))"
    using assms(4) by (simp add: parse_input_def get_list_def)
  have rest: "style_type ?p' = style_type ?p"
    "wash_frequency ?p' = wash_frequency ?p" "known_issues ?p' = known_issues ?p"
    by (simp_all add: parse_input_def)
  show ?thesis
    unfolding same_indicators_def uses_heavy_products_def list_ex_iff s pr rest
    using l2 l3 by simp
qed

subsection \<open>Evaluating the examples\<close>

lemma example_both_scores:
  "folliculitis_score (parse_input example_both) = 6"
  "seborrheic_dermatitis_score (parse_input example_both) = 5"
  by code_simp+

lemma example_tension_bumps_parsed:
  "parse_input example_tension_bumps =
     \<lparr> symptoms = [''tenderness'', ''hair_loss'', ''bumps''], style_type = ''braids'',
       wash_frequency = ''weekly'', product_use = [], known_issues = [],
       image_uploaded = False \<rparr>"
  by code_simp

lemma example_unclear_rules:
  "\<forall>rule_func \<in> set rule_chain. rule_func (parse_input example_unclear) = Inr None"
  by code_simp

lemma example_seborrheic_result:
  "classify example_seborrheic =
     Inr \<lparr> condition_label = ''seborrheic_dermatitis'', care_plan_id = ''CP-001'',
           referral_required = False, confidence_level = ''moderate'',
           reasoning = ''Itching and flaking are classic signs of seborrheic dermatitis. Often manageable with medicated shampoos.'',
           severity_score = 4 \<rparr>"
  by code_simp

lemma normalize_bleeding: "normalize '' Bleeding'' = ''bleeding''"
  by code_simp

lemma inert_witness_facts:
  "normalize ''zzz'' \<notin> set symptom_tokens"
  "length (get_list (d_symptoms example_dry_scalp)) \<noteq> 2"
  "normalize ''zzz'' \<notin> HEAVY_PRODUCTS"
  "\<not> py_contains ''oil'' (normalize ''zzz'')"
  "length (get_list (d_product_use example_dry_scalp)) \<noteq> 2"
  by code_simp+

lemma sets_witness_facts:
  "set [''flaking'', ''itching''] = set (get_list (d_symptoms example_seborrheic))"
  "(length [''flaking'', ''itching''] \<le> 2) = (length (get_list (d_symptoms example_seborrheic)) \<le> 2)"
  "set [''oil'', ''oil''] = set (get_list (d_product_use example_seborrheic))"
  "(3 \<le> length [''oil'', ''oil'']) = (3 \<le> length (get_list (d_product_use example_seborrheic)))"
  by (auto simp add: example_seborrheic_def make_input_def get_list_def)

subsection \<open>Rule chain order\<close>

text \<open>
  C1. The chain is evaluated in the order Folliculitis, Psoriasis, TensionDamage,
  SeborrheicDermatitis, ContactDermatitis, ScalpAcne, ProductBuildup, DryScalp, and
  \<open>classify\<close> commits to the first rule whose score clears its threshold; in particular
  an input that clears both the Folliculitis and the SeborrheicDermatitis threshold is
  labelled folliculitis.
\<close>

theorem classify_first_match:
  "\<exists>r. classify d = Inr r
     \<and> condition_label r =
         (let p = parse_input d in
          if folliculitis_score p \<ge> 5 then ''folliculitis''
          else if psoriasis_score p \<ge> 5 then ''psoriasis''
          else if tension_damage_score p \<ge> 5 then ''tension_damage''
          else if seborrheic_dermatitis_score p \<ge> 4 then ''seborrheic_dermatitis''
          else if contact_dermatitis_score p \<ge> 4 then ''contact_dermatitis''
          else if scalp_acne_score p \<ge> 4 then ''scalp_acne''
          else if product_buildup_score p \<ge> 4 then ''product_buildup''
          else if dry_scalp_score p \<ge> 3 then ''dry_scalp''
          else ''unclear'')
     \<and> (folliculitis_score (parse_input d) \<ge> 5
          \<and> seborrheic_dermatitis_score (parse_input d) \<ge> 4
          \<longrightarrow> condition_label r = ''folliculitis'')"
proof -
  obtain b where b: "run_decision_tree (parse_input d) = Inr b"
    and o: "tree_outcome (parse_input d) b"
    using run_decision_tree_result by blast
  let ?r = "apply_referral_rules b (parse_input d)"
  have c: "classify d = Inr ?r" using b by (rule classify_via_tree)
  have l: "condition_label ?r = condition_label b"
    by (simp only: apply_referral_rules_label)
  show ?thesis
    unfolding Let_def c
    using tree_outcome_label_chain [OF o] l by simp
qed

theorem classify_first_match_witness:
  "folliculitis_score (parse_input example_both) \<ge> 5
   \<and> seborrheic_dermatitis_score (parse_input example_both) \<ge> 4
   \<and> (\<exists>r. classify example_both = Inr r \<and> condition_label r = ''folliculitis'')"
  using classify_first_match [of example_both]
  by (auto simp add: example_both_scores)

text \<open>
  C5. An input with tenderness, hair\_loss, a protective style and bumps is never labelled
  tension\_damage: the tension rule returns no match although its score clears the
  threshold, and the input is labelled folliculitis by the earlier rule.
\<close>

theorem tension_damage_disqualified_by_bumps:
  assumes "''tenderness'' \<in> set (symptoms (parse_input d))"
    and "''hair_loss'' \<in> set (symptoms (parse_input d))"
    and "style_type (parse_input d) \<in> PROTECTIVE_STYLES"
    and "''bumps'' \<in> set (symptoms (parse_input d))"
  shows "tension_damage_score (parse_input d) \<ge> 5
     \<and> check_tension_damage (parse_input d) = Inr None
     \<and> (\<exists>r. classify d = Inr r \<and> condition_label r \<noteq> ''tension_damage''
            \<and> condition_label r = ''folliculitis'')"
proof -
  let ?p = "parse_input d"
  have bumps: "tension_has_bumps ?p"
    using assms(4) by (simp add: tension_has_bumps_def any_in_def)
  have ts: "tension_damage_score ?p = 9"
    using assms bumps by (simp add: tension_damage_score_def any_in_def Let_def)
  have fs: "folliculitis_score ?p \<ge> 5"
    using assms by (simp add: folliculitis_score_def any_in_def Let_def)
  obtain b where b: "run_decision_tree ?p = Inr b" and o: "tree_outcome ?p b"
    using run_decision_tree_result by blast
  have lb: "condition_label b = ''folliculitis''"
    using tree_outcome_label_chain [OF o] fs by simp
  have c: "classify d = Inr (apply_referral_rules b ?p)" using b by (rule classify_via_tree)
  have l: "condition_label (apply_referral_rules b ?p) = ''folliculitis''"
    using lb by (simp only: apply_referral_rules_label)
  have ne: "condition_label (apply_referral_rules b ?p) \<noteq> ''tension_damage''"
    unfolding l by simp
  show ?thesis
    using ts tension_disqualified [OF bumps] c l ne by simp
qed

theorem tension_damage_disqualified_by_bumps_witness:
  "''tenderness'' \<in> set (symptoms (parse_input example_tension_bumps))
   \<and> ''hair_loss'' \<in> set (symptoms (parse_input example_tension_bumps))
   \<and> style_type (parse_input example_tension_bumps) \<in> PROTECTIVE_STYLES
   \<and> ''bumps'' \<in> set (symptoms (parse_input example_tension_bumps))
   \<and> (\<exists>r. classify example_tension_bumps = Inr r \<and> condition_label r \<noteq> ''tension_damage'')"
proof -
  have h1: "''tenderness'' \<in> set (symptoms (parse_input example_tension_bumps))"
    and h2: "''hair_loss'' \<in> set (symptoms (parse_input example_tension_bumps))"
    and h3: "style_type (parse_input example_tension_bumps) \<in> PROTECTIVE_STYLES"
    and h4: "''bumps'' \<in> set (symptoms (parse_input example_tension_bumps))"
    by (simp_all add: example_tension_bumps_parsed PROTECTIVE_STYLES_def)
  show ?thesis
    using h1 h2 h3 h4 tension_damage_disqualified_by_bumps [OF h1 h2 h3 h4] by blast
qed

text \<open>
  C7. When all eight rules return no match, the chain returns the fixed fallback record
  (unclear, CP-999, referral required, low confidence, severity 5, fixed text), and
  \<open>classify\<close> returns a record, not an error: the same record, with the severity
  raised to 8 and the urgent notice appended when the override fires.
\<close>

theorem unclear_fallback:
  assumes "\<forall>rule_func \<in> set rule_chain. rule_func (parse_input d) = Inr None"
  shows "run_decision_tree (parse_input d) =
           Inr \<lparr> condition_label = ''unclear'', care_plan_id = ''CP-999'',
                 referral_required = True, confidence_level = ''low'',
                 reasoning = fallback_text, severity_score = 5 \<rparr>
     \<and> (\<exists>r. classify d = Inr r \<and> condition_label r = ''unclear''
            \<and> care_plan_id r = ''CP-999'' \<and> referral_required r
            \<and> confidence_level r = ''low''
            \<and> severity_score r =
                (if severe_symptoms (parse_input d) \<or> hair_loss_with_pain (parse_input d)
                 then 8 else 5)
            \<and> reasoning r = fallback_text @
                (if severe_symptoms (parse_input d) \<or> hair_loss_with_pain (parse_input d)
                 then urgent_notice else []))"
proof -
  let ?p = "parse_input d"
  have t: "run_decision_tree ?p = Inr (create_unclear_result ?p)"
    using assms by (simp add: run_decision_tree_def rule_chain_def)
  have c: "classify d = Inr (apply_referral_rules (create_unclear_result ?p) ?p)"
    using t by (rule classify_via_tree)
  show ?thesis
    unfolding t c
    by (simp add: apply_referral_rules_label apply_referral_rules_severity
        apply_referral_rules_referral apply_referral_rules_reasoning
        create_unclear_result_def fallback_text_def)
qed

theorem unclear_fallback_witness:
  "check_folliculitis (parse_input example_unclear) = Inr None
   \<and> check_psoriasis (parse_input example_unclear) = Inr None
   \<and> check_tension_damage (parse_input example_unclear) = Inr None
   \<and> check_seborrheic_dermatitis (parse_input example_unclear) = Inr None
   \<and> check_contact_dermatitis (parse_input example_unclear) = Inr None
   \<and> check_scalp_acne (parse_input example_unclear) = Inr None
   \<and> check_product_buildup (parse_input example_unclear) = Inr None
   \<and> check_dry_scalp (parse_input example_unclear) = Inr None
   \<and> (\<exists>r. classify example_unclear = Inr r \<and> condition_label r = ''unclear''
          \<and> referral_required r \<and> confidence_level r = ''low''
          \<and> severity_score r = 5)"
proof -
  have sev: "\<not> (severe_symptoms (parse_input example_unclear)
      \<or> hair_loss_with_pain (parse_input example_unclear))"
    by code_simp
  show ?thesis
    using example_unclear_rules unclear_fallback [OF example_unclear_rules] sev
    by (auto simp add: rule_chain_def)
qed

subsection \<open>Confidence\<close>

text \<open>
  C6. For every rule except DryScalp, the confidence of a result with that rule's label
  is the band of the rule's score against its fixed \<open>max_score\<close> (high from 70 percent,
  moderate from 40 percent, low below); a dry\_scalp result always has moderate
  confidence.
\<close>

theorem confidence_banding:
  "\<exists>r. classify d = Inr r \<and>
     (let p = parse_input d in
        (condition_label r = ''folliculitis''
           \<longrightarrow> confidence_level r = confidence_band (folliculitis_score p) 10)
      \<and> (condition_label r = ''psoriasis''
           \<longrightarrow> confidence_level r = confidence_band (psoriasis_score p) 12)
      \<and> (condition_label r = ''tension_damage''
           \<longrightarrow> confidence_level r = confidence_band (tension_damage_score p) 11)
      \<and> (condition_label r = ''seborrheic_dermatitis''
           \<longrightarrow> confidence_level r = confidence_band (seborrheic_dermatitis_score p) 10)
      \<and> (condition_label r = ''contact_dermatitis''
           \<longrightarrow> confidence_level r = confidence_band (contact_dermatitis_score p) 7)
      \<and> (condition_label r = ''scalp_acne''
           \<longrightarrow> confidence_level r = confidence_band (scalp_acne_score p) 8)
      \<and> (condition_label r = ''product_buildup''
           \<longrightarrow> confidence_level r = confidence_band (product_buildup_score p) 7)
      \<and> (condition_label r = ''dry_scalp'' \<longrightarrow> confidence_level r = ''moderate''))"
proof -
  obtain b where b: "run_decision_tree (parse_input d) = Inr b"
    and o: "tree_outcome (parse_input d) b"
    using run_decision_tree_result by blast
  let ?r = "apply_referral_rules b (parse_input d)"
  have c: "classify d = Inr ?r" using b by (rule classify_via_tree)
  show ?thesis
    unfolding Let_def c
    using tree_outcome_confidence_by_label [OF o]
    by (simp only: apply_referral_rules_label sum.inject simp_thms ex_simps)
qed

theorem confidence_banding_witness:
  "\<exists>r. classify example_dry_scalp = Inr r \<and> condition_label r = ''dry_scalp''
     \<and> confidence_level r = ''moderate''"
  using confidence_banding [of example_dry_scalp]
  by (simp add: example_dry_scalp_result)

subsection \<open>Shape of the result\<close>

text \<open>
  C2. For every input, \<open>classify\<close> returns a record whose \<open>condition_label\<close> is one of
  the nine enumerated values, whose \<open>care_plan_id\<close> is the \<open>CARE_PLANS\<close> entry of that
  label (\<open>dry_scalp\<close> and \<open>product_buildup\<close> both map to CP-006, \<open>unclear\<close> to CP-999),
  whose \<open>severity_score\<close> lies in 1..10 and whose \<open>confidence_level\<close> is low, moderate
  or high.
\<close>

theorem classify_well_formed:
  "\<exists>r. classify d = Inr r
     \<and> (\<exists>l. condition_label r = label_value l \<and> care_plan_id r = CARE_PLANS l)
     \<and> condition_label r \<in> {''seborrheic_dermatitis'', ''folliculitis'', ''psoriasis'',
          ''scalp_acne'', ''tension_damage'', ''product_buildup'', ''dry_scalp'',
          ''contact_dermatitis'', ''unclear''}
     \<and> 1 \<le> severity_score r \<and> severity_score r \<le> 10
     \<and> confidence_level r \<in> {''low'', ''moderate'', ''high''}
     \<and> CARE_PLANS DRY_SCALP = ''CP-006'' \<and> CARE_PLANS PRODUCT_BUILDUP = ''CP-006''
     \<and> CARE_PLANS UNCLEAR = ''CP-999''"
proof -
  obtain b where b: "run_decision_tree (parse_input d) = Inr b"
    and o: "tree_outcome (parse_input d) b"
    using run_decision_tree_result by blast
  let ?r = "apply_referral_rules b (parse_input d)"
  have c: "classify d = Inr ?r" using b by (rule classify_via_tree)
  have sev: "2 \<le> severity_score b \<and> severity_score b \<le> 8"
    using o by (rule tree_outcome_severity)
  have sev': "1 \<le> severity_score ?r \<and> severity_score ?r \<le> 10"
    using sev by (simp add: apply_referral_rules_severity)
  have plan: "\<exists>l. condition_label ?r = label_value l \<and> care_plan_id ?r = CARE_PLANS l"
    using tree_outcome_care_plan [OF o] by (simp add: apply_referral_rules_label)
  have lab: "condition_label ?r \<in> {''seborrheic_dermatitis'', ''folliculitis'', ''psoriasis'',
          ''scalp_acne'', ''tension_damage'', ''product_buildup'', ''dry_scalp'',
          ''contact_dermatitis'', ''unclear''}"
    using tree_outcome_label [OF o] by (simp only: apply_referral_rules_label)
  have conf: "confidence_level ?r \<in> {''low'', ''moderate'', ''high''}"
    using tree_outcome_confidence [OF o] by (simp only: apply_referral_rules_label)
  have tab: "CARE_PLANS DRY_SCALP = ''CP-006'' \<and> CARE_PLANS PRODUCT_BUILDUP = ''CP-006''
     \<and> CARE_PLANS UNCLEAR = ''CP-999''" by simp
  show ?thesis
    using c plan lab conf sev' tab by blast
qed

theorem classify_well_formed_witness:
  "\<exists>r. classify example_dry_scalp = Inr r
     \<and> condition_label r = ''dry_scalp'' \<and> care_plan_id r = CARE_PLANS DRY_SCALP
     \<and> 1 \<le> severity_score r \<and> severity_score r \<le> 10
     \<and> confidence_level r \<in> {''low'', ''moderate'', ''high''}"
  using classify_well_formed [of example_dry_scalp]
  by (simp add: example_dry_scalp_result)

text \<open>
  C10. For every input, the final \<open>severity_score\<close> lies in 2..8: every rule's base
  severity is between 2 and 8 and the override only raises it to 8.
\<close>

theorem classify_severity_range:
  "\<exists>r. classify d = Inr r \<and> 2 \<le> severity_score r \<and> severity_score r \<le> 8"
proof -
  obtain b where b: "run_decision_tree (parse_input d) = Inr b"
    and o: "tree_outcome (parse_input d) b"
    using run_decision_tree_result by blast
  have "2 \<le> severity_score b \<and> severity_score b \<le> 8"
    using o by (rule tree_outcome_severity)
  then show ?thesis
    using classify_via_tree [OF b] by (simp add: apply_referral_rules_severity)
qed

theorem classify_severity_range_witness:
  "\<exists>r. classify example_bleeding = Inr r \<and> severity_score r = 8
     \<and> 2 \<le> severity_score r \<and> severity_score r \<le> 8"
  using classify_severity_range [of example_bleeding]
  by (simp add: example_bleeding_result)

subsection \<open>Referral override\<close>

text \<open>
  C3. If the symptoms contain one of bleeding, pus, oozing, crusting, severe, worsening,
  spreading, fever, or contain both one of hair\_loss, bald\_spots and one of pain,
  tenderness, then the final result requires a referral, its severity is the maximum of
  the base severity and 8, and its reasoning is the base reasoning followed by the urgent
  notice, whichever rule (or the fallback) produced the base result.
\<close>

theorem severe_override:
  assumes "set (symptoms (parse_input d))
             \<inter> {''bleeding'', ''pus'', ''oozing'', ''crusting'', ''severe'', ''worsening'',
                 ''spreading'', ''fever''} \<noteq> {}
           \<or> (set (symptoms (parse_input d)) \<inter> {''hair_loss'', ''bald_spots''} \<noteq> {}
              \<and> set (symptoms (parse_input d)) \<inter> {''pain'', ''tenderness''} \<noteq> {})"
  shows "\<exists>base r. run_decision_tree (parse_input d) = Inr base \<and> classify d = Inr r
     \<and> referral_required r
     \<and> severity_score r = max (severity_score base) 8 \<and> 8 \<le> severity_score r
     \<and> reasoning r = reasoning base
          @ '' URGENT: Severe symptoms require immediate professional evaluation.''
     \<and> condition_label r = condition_label base \<and> care_plan_id r = care_plan_id base
     \<and> confidence_level r = confidence_level base"
proof -
  let ?p = "parse_input d"
  have trig: "severe_symptoms ?p \<or> hair_loss_with_pain ?p"
    using assms by (auto simp add: severe_symptoms_def hair_loss_with_pain_def any_in_def)
  obtain b where b: "run_decision_tree ?p = Inr b"
    using run_decision_tree_result by blast
  have c: "classify d = Inr (apply_referral_rules b ?p)" using b by (rule classify_via_tree)
  show ?thesis
    using b c by (simp add: override_fires [OF trig] urgent_notice_def)
qed

theorem severe_override_witness:
  "set (symptoms (parse_input example_bleeding))
             \<inter> {''bleeding'', ''pus'', ''oozing'', ''crusting'', ''severe'', ''worsening'',
                 ''spreading'', ''fever''} \<noteq> {}
   \<and> (\<exists>r. classify example_bleeding = Inr r \<and> referral_required r \<and> severity_score r = 8)"
proof -
  have h: "set (symptoms (parse_input example_bleeding))
             \<inter> {''bleeding'', ''pus'', ''oozing'', ''crusting'', ''severe'', ''worsening'',
                 ''spreading'', ''fever''} \<noteq> {}"
    by code_simp
  show ?thesis
    using h severe_override [of example_bleeding] by (auto simp add: example_bleeding_result)
qed

text \<open>
  C4. For an input whose result does not require a referral, adding one severe-symptom
  trigger token to the symptoms, at any position, gives a result that requires a referral
  and whose severity is not lower than before.
\<close>

theorem override_monotone:
  assumes "classify d = Inr r"
    and "\<not> referral_required r"
    and "normalize t \<in> {''bleeding'', ''pus'', ''oozing'', ''crusting'', ''severe'',
                          ''worsening'', ''spreading'', ''fever''}"
  shows "\<exists>r'. classify (add_symptom n t d) = Inr r'
     \<and> referral_required r' \<and> (referral_required r \<longrightarrow> referral_required r')
     \<and> severity_score r \<le> severity_score r' \<and> severity_score r' = 8"
proof -
  let ?p' = "parse_input (add_symptom n t d)"
  have s: "set (symptoms ?p') = insert (normalize t) (set (symptoms (parse_input d)))"
    by (simp add: parse_add_symptom set_insert_at del: set_append)
  have "normalize t \<in> set (symptoms ?p')" unfolding s by simp
  then have sev: "severe_symptoms ?p'"
    using assms(3) by (auto simp add: severe_symptoms_def any_in_def)
  obtain b' where b': "run_decision_tree ?p' = Inr b'" and o': "tree_outcome ?p' b'"
    using run_decision_tree_result by blast
  let ?r' = "apply_referral_rules b' ?p'"
  have c': "classify (add_symptom n t d) = Inr ?r'" using b' by (rule classify_via_tree)
  have ref: "referral_required ?r'"
    using sev by (simp add: apply_referral_rules_referral)
  have "severity_score b' \<le> 8" using tree_outcome_severity [OF o'] by simp
  then have s8: "severity_score ?r' = 8"
    using sev by (simp add: apply_referral_rules_severity)
  have "severity_score r \<le> 8" using assms(1) by (rule classify_severity_le_8)
  then show ?thesis using c' ref s8 by simp
qed

theorem override_monotone_witness:
  "\<exists>r r'. classify example_seborrheic = Inr r \<and> \<not> referral_required r
     \<and> severity_score r = 4
     \<and> classify (add_symptom 1 '' Bleeding'' example_seborrheic) = Inr r'
     \<and> referral_required r' \<and> severity_score r' = 8"
proof -
  have h: "\<not> referral_required \<lparr> condition_label = ''seborrheic_dermatitis'',
      care_plan_id = ''CP-001'', referral_required = False, confidence_level = ''moderate'',
      reasoning = ''Itching and flaking are classic signs of seborrheic dermatitis. Often manageable with medicated shampoos.'',
      severity_score = 4 \<rparr>" by simp
  have t: "normalize '' Bleeding'' \<in> {''bleeding'', ''pus'', ''oozing'', ''crusting'',
      ''severe'', ''worsening'', ''spreading'', ''fever''}"
    by (simp add: normalize_bleeding)
  show ?thesis
    using override_monotone [OF example_seborrheic_result h t, of 1]
    by (auto simp add: example_seborrheic_result)
qed

subsection \<open>Tokens the rules do not know, and repeated tokens\<close>

text \<open>
  C8, as amended. Adding to \<open>symptoms\<close> a token that no rule looks for leaves the result
  of \<open>classify\<close> unchanged when the input does not have exactly two symptoms; adding to
  \<open>product_use\<close> a token that is not a heavy product and does not contain \<open>oil\<close> leaves
  it unchanged when the input does not have exactly two products. In every case
  \<open>classify\<close> returns a record.
\<close>

theorem unrecognized_token_inert:
  "(normalize t \<notin> set symptom_tokens \<and> length (get_list (d_symptoms d)) \<noteq> 2
      \<longrightarrow> classify (add_symptom n t d) = classify d)
   \<and> (normalize t \<notin> HEAVY_PRODUCTS \<and> \<not> py_contains ''oil'' (normalize t)
        \<and> length (get_list (d_product_use d)) \<noteq> 2
      \<longrightarrow> classify (add_product n t d) = classify d)
   \<and> (\<exists>r. classify (add_symptom n t d) = Inr r)
   \<and> (\<exists>r. classify (add_product n t d) = Inr r)"
  using add_symptom_same_indicators [of t d n, THEN same_indicators_classify]
    add_product_same_indicators [of t d n, THEN same_indicators_classify]
    classify_total [of "add_symptom n t d"] classify_total [of "add_product n t d"]
  by blast

theorem unrecognized_token_inert_witness:
  "normalize ''zzz'' \<notin> set symptom_tokens
   \<and> length (get_list (d_symptoms example_dry_scalp)) \<noteq> 2
   \<and> normalize ''zzz'' \<notin> HEAVY_PRODUCTS \<and> \<not> py_contains ''oil'' (normalize ''zzz'')
   \<and> length (get_list (d_product_use example_dry_scalp)) \<noteq> 2
   \<and> classify (add_symptom 1 ''zzz'' example_dry_scalp) = classify example_dry_scalp
   \<and> classify (add_product 0 ''zzz'' example_dry_scalp) = classify example_dry_scalp"
  using inert_witness_facts unrecognized_token_inert [of "''zzz''" example_dry_scalp 1]
    unrecognized_token_inert [of "''zzz''" example_dry_scalp 0]
  by blast

text \<open>
  With exactly two symptoms, or two products, an unknown token changes the result: it
  switches off DryScalp's at-most-two-symptoms indicator, or switches on ProductBuildup's
  three-or-more-products indicator. An unknown product token that contains \<open>oil\<close> switches
  off DryScalp's no-oil indicator.
\<close>

theorem unrecognized_token_counterexample:
  "normalize ''zzz'' \<notin> set symptom_tokens
   \<and> normalize ''zzz'' \<notin> PROTECTIVE_STYLES \<union> LOW_WASH_FREQUENCIES \<union> HEAVY_PRODUCTS
   \<and> classify (add_symptom 2 ''zzz'' example_two_symptoms) \<noteq> classify example_two_symptoms
   \<and> classify (add_product 2 ''zzz'' example_two_products) \<noteq> classify example_two_products
   \<and> normalize ''coconut_oil'' \<notin> set symptom_tokens
   \<and> normalize ''coconut_oil'' \<notin> PROTECTIVE_STYLES \<union> LOW_WASH_FREQUENCIES \<union> HEAVY_PRODUCTS
   \<and> classify (add_product 0 ''coconut_oil'' example_two_symptoms)
        \<noteq> classify example_two_symptoms"
proof -
  have a: "normalize ''zzz'' \<notin> set symptom_tokens" by code_simp
  have b: "normalize ''zzz'' \<notin> PROTECTIVE_STYLES \<union> LOW_WASH_FREQUENCIES \<union> HEAVY_PRODUCTS"
    by code_simp
  have c: "classify (add_symptom 2 ''zzz'' example_two_symptoms) \<noteq> classify example_two_symptoms"
    by code_simp
  have d: "classify (add_product 2 ''zzz'' example_two_products) \<noteq> classify example_two_products"
    by code_simp
  have e: "normalize ''coconut_oil'' \<notin> set symptom_tokens" by code_simp
  have f: "normalize ''coconut_oil'' \<notin> PROTECTIVE_STYLES \<union> LOW_WASH_FREQUENCIES \<union> HEAVY_PRODUCTS"
    by code_simp
  have g: "classify (add_product 0 ''coconut_oil'' example_two_symptoms)
        \<noteq> classify example_two_symptoms" by code_simp
  show ?thesis using a b c d e f g by blast
qed

text \<open>
  C9, as amended. Replacing \<open>symptoms\<close> and \<open>product_use\<close> by sequences with the same
  distinct tokens leaves the result of \<open>classify\<close> unchanged whenever the two size tests
  (at most two symptoms, three or more products) come out the same; in particular under
  every reordering of the two sequences.
\<close>

theorem token_collections_as_sets:
  "(set s' = set (get_list (d_symptoms d))
      \<and> (length s' \<le> 2) = (length (get_list (d_symptoms d)) \<le> 2)
      \<and> set pr' = set (get_list (d_product_use d))
      \<and> (3 \<le> length pr') = (3 \<le> length (get_list (d_product_use d)))
    \<longrightarrow> classify (d\<lparr> d_symptoms := Some s', d_product_use := Some pr' \<rparr>) = classify d)
   \<and> (mset s' = mset (get_list (d_symptoms d))
      \<and> mset pr' = mset (get_list (d_product_use d))
    \<longrightarrow> classify (d\<lparr> d_symptoms := Some s', d_product_use := Some pr' \<rparr>) = classify d)"
proof (intro conjI impI)
  assume "set s' = set (get_list (d_symptoms d))
      \<and> (length s' \<le> 2) = (length (get_list (d_symptoms d)) \<le> 2)
      \<and> set pr' = set (get_list (d_product_use d))
      \<and> (3 \<le> length pr') = (3 \<le> length (get_list (d_product_use d)))"
  then have "same_indicators
      (parse_input (d\<lparr> d_symptoms := Some s', d_product_use := Some pr' \<rparr>)) (parse_input d)"
    by (intro replace_lists_same_indicators) simp_all
  then show "classify (d\<lparr> d_symptoms := Some s', d_product_use := Some pr' \<rparr>) = classify d"
    by (rule same_indicators_classify)
next
  assume a: "mset s' = mset (get_list (d_symptoms d))
      \<and> mset pr' = mset (get_list (d_product_use d))"
  have "set s' = set (get_list (d_symptoms d))" using a by (metis set_mset_mset)
  moreover have "length s' = length (get_list (d_symptoms d))"
    using a by (metis size_mset)
  moreover have "set pr' = set (get_list (d_product_use d))" using a by (metis set_mset_mset)
  moreover have "length pr' = length (get_list (d_product_use d))"
    using a by (metis size_mset)
  ultimately have "same_indicators
      (parse_input (d\<lparr> d_symptoms := Some s', d_product_use := Some pr' \<rparr>)) (parse_input d)"
    by (intro replace_lists_same_indicators) simp_all
  then show "classify (d\<lparr> d_symptoms := Some s', d_product_use := Some pr' \<rparr>) = classify d"
    by (rule same_indicators_classify)
qed

theorem token_collections_as_sets_witness:
  "set [''flaking'', ''itching''] = set (get_list (d_symptoms example_seborrheic))
   \<and> set [''oil'', ''oil''] = set (get_list (d_product_use example_seborrheic))
   \<and> classify (example_seborrheic\<lparr> d_symptoms := Some [''flaking'', ''itching''],
                                   d_product_use := Some [''oil'', ''oil''] \<rparr>)
       = classify example_seborrheic"
  using sets_witness_facts
    token_collections_as_sets [of "[''flaking'', ''itching'']" example_seborrheic
      "[''oil'', ''oil'']"]
  by blast

text \<open>
  Repeating a token can change the result: a third entry that repeats a symptom switches
  off DryScalp's at-most-two-symptoms indicator, and a third entry that repeats a product
  switches on ProductBuildup's three-or-more-products indicator.
\<close>

theorem token_collections_counterexample:
  "set [''itching'', ''redness'', ''itching''] = set [''itching'', ''redness'']
   \<and> classify example_two_symptoms_dup \<noteq> classify example_two_symptoms
   \<and> set [''shampoo'', ''conditioner'', ''shampoo''] = set [''shampoo'', ''conditioner'']
   \<and> classify example_two_products_dup \<noteq> classify example_two_products"
proof -
  have a: "set [''itching'', ''redness'', ''itching''] = set [''itching'', ''redness'']"
    by auto
  have b: "classify example_two_symptoms_dup \<noteq> classify example_two_symptoms"
    by code_simp
  have c: "set [''shampoo'', ''conditioner'', ''shampoo''] = set [''shampoo'', ''conditioner'']"
    by auto
  have d: "classify example_two_products_dup \<noteq> classify example_two_products"
    by code_simp
  show ?thesis using a b c d by blast
qed

end
